theory Spec2Isabelle
  imports Complex_Main "HOL-Library.Product_Lexorder" "HOL-Library.Multiset"
begin

section \<open>The batch scheduler of sage: rate limiter, queue items, queue service\<close>

text \<open>
  The development embeds \<^verbatim>\<open>src/sage/services/queue.py\<close> together with the
  models it uses (\<^verbatim>\<open>sage/models/queue.py\<close>, \<^verbatim>\<open>sage/utils/progress.py\<close>,
  \<^verbatim>\<open>sage/config/settings.py\<close>).

  Conventions of the embedding.
  \<^item> Python \<^verbatim>\<open>float\<close> is read as \<^typ>\<open>real\<close>: rounding and overflow of
    binary floating point are outside the model.
  \<^item> A private attribute \<^verbatim>\<open>_tokens\<close> is the field \<open>tokens\<close>, and so on.
  \<^item> The event loop's clock \<^verbatim>\<open>asyncio.get_event_loop().time()\<close> is an input:
    every call of \<^verbatim>\<open>_refill\<close> takes the next reading from a list of readings.
    A loop that has used up the readings it was given has not returned.
  \<^item> \<^verbatim>\<open>await asyncio.sleep(d)\<close> is recorded as the requested duration \<open>d\<close>.
\<close>

subsection \<open>RateLimiter\<close>

record RateLimiter =
  requests_per_minute :: int
  burst :: int
  backoff_base_seconds :: real
  max_backoff_seconds :: real
  tokens :: real
  last_refill :: real
  refill_rate :: real

text \<open>
  The generated \<^verbatim>\<open>__init__\<close> followed by \<^verbatim>\<open>__post_init__\<close>; \<open>now\<close> is the
  clock reading taken there.
\<close>

definition RateLimiter_init :: "int \<Rightarrow> int \<Rightarrow> real \<Rightarrow> real \<Rightarrow> real \<Rightarrow> RateLimiter" where
  "RateLimiter_init rpm b base maxb now =
     \<lparr> requests_per_minute = rpm,
       burst = b,
       backoff_base_seconds = base,
       max_backoff_seconds = maxb,
       tokens = real_of_int b,
       last_refill = now,
       refill_rate = (if rpm \<noteq> 0 then real_of_int rpm / 60 else 0) \<rparr>"

text \<open>\<^verbatim>\<open>RateLimiter(requests_per_minute=.., burst=..)\<close> with the dataclass defaults.\<close>

definition RateLimiter_new :: "int \<Rightarrow> int \<Rightarrow> real \<Rightarrow> RateLimiter" where
  "RateLimiter_new rpm b now = RateLimiter_init rpm b (1 / 2) 5 now"

text \<open>\<^verbatim>\<open>RateLimiter._refill\<close>, with the clock reading \<open>now\<close>.\<close>

definition refill :: "real \<Rightarrow> RateLimiter \<Rightarrow> RateLimiter" where
  "refill now l =
     (let elapsed = now - last_refill l in
      if elapsed \<le> 0 \<or> refill_rate l = 0 then l
      else l\<lparr> tokens := min (real_of_int (burst l)) (tokens l + elapsed * refill_rate l),
              last_refill := now \<rparr>)"

text \<open>
  The \<^verbatim>\<open>while True\<close> loop of \<^verbatim>\<open>RateLimiter.acquire\<close>. The first argument holds
  the clock readings still to come, the second is the local \<^verbatim>\<open>attempt\<close>. The result
  is the list of sleeps requested so far and, when the loop returned, the limiter it left
  and the readings it did not use.
\<close>

fun acquire_loop ::
  "real list \<Rightarrow> nat \<Rightarrow> RateLimiter \<Rightarrow> real list \<times> (RateLimiter \<times> real list) option" where
  "acquire_loop [] attempt l = ([], None)"
| "acquire_loop (now # clk) attempt l =
     (let l1 = refill now l in
      if 1 \<le> tokens l1 then ([], Some (l1\<lparr> tokens := tokens l1 - 1 \<rparr>, clk))
      else
        let wait_time = (if refill_rate l1 \<noteq> 0 then (1 - tokens l1) / refill_rate l1
                         else backoff_base_seconds l1);
            backoff = min (max_backoff_seconds l1) (backoff_base_seconds l1 * 2 ^ attempt);
            r = acquire_loop clk (Suc attempt) l1
        in (max wait_time backoff # fst r, snd r))"

text \<open>\<^verbatim>\<open>RateLimiter.acquire\<close>.\<close>

definition acquire ::
  "real list \<Rightarrow> RateLimiter \<Rightarrow> real list \<times> (RateLimiter \<times> real list) option" where
  "acquire clk l =
     (if requests_per_minute l \<le> 0 then ([], Some (l, clk)) else acquire_loop clk 0 l)"

text \<open>
  A caller that awaits \<^verbatim>\<open>acquire\<close> several times in a row, each call with the clock
  readings it sees. The result lists the sleeps of every call and holds the limiter
  after the last one, when all of them returned.
\<close>

fun acquire_calls :: "real list list \<Rightarrow> RateLimiter \<Rightarrow> real list list \<times> RateLimiter option" where
  "acquire_calls [] l = ([], Some l)"
| "acquire_calls (clk # clks) l =
     (case acquire clk l of
        (sl, None) \<Rightarrow> ([sl], None)
      | (sl, Some (l', rest)) \<Rightarrow>
          (let r = acquire_calls clks l' in (sl # fst r, snd r)))"

text \<open>The limiter after the refills of the given readings, oldest first.\<close>

definition refills :: "RateLimiter \<Rightarrow> real list \<Rightarrow> RateLimiter" where
  "refills l ts = foldl (\<lambda>l' t. refill t l') l ts"

text \<open>What \<^verbatim>\<open>__post_init__\<close> establishes between the rate and the refill rate.\<close>

definition limiter_wf :: "RateLimiter \<Rightarrow> bool" where
  "limiter_wf l \<longleftrightarrow>
     refill_rate l = (if requests_per_minute l \<noteq> 0 then real_of_int (requests_per_minute l) / 60 else 0)"


subsection \<open>Rate-limit configuration\<close>

text \<open>
  \<^verbatim>\<open>ServiceRateLimit\<close> of \<^verbatim>\<open>sage/config/settings.py\<close>: every field is optional.
\<close>

record ServiceRateLimit =
  cfg_requests_per_day :: "int option"
  cfg_requests_per_hour :: "int option"
  cfg_requests_per_minute :: "int option"
  cfg_tokens_per_minute :: "int option"
  cfg_burst :: "int option"

text \<open>Python's \<^verbatim>\<open>x or d\<close> for an optional integer: \<^verbatim>\<open>None\<close> and \<^verbatim>\<open>0\<close> are falsy.\<close>

definition or_default :: "int option \<Rightarrow> int \<Rightarrow> int" where
  "or_default x d = (case x of None \<Rightarrow> d | Some v \<Rightarrow> if v = 0 then d else v)"

text \<open>
  \<^verbatim>\<open>QueueService._create_limiter\<close>: the limiter it returns, and the lines it writes
  to the console.
\<close>

definition create_limiter :: "string \<Rightarrow> ServiceRateLimit \<Rightarrow> real \<Rightarrow> RateLimiter" where
  "create_limiter service_name config now =
     (let rpm = or_default (cfg_requests_per_minute config) 60;
          b = or_default (cfg_burst config) rpm
      in RateLimiter_new rpm b now)"

definition create_limiter_log :: "string \<Rightarrow> ServiceRateLimit \<Rightarrow> string list" where
  "create_limiter_log service_name config =
     (let rpm = or_default (cfg_requests_per_minute config) 60 in
      if rpm \<le> 0
      then [''[yellow]'' @ service_name @ '': rate limit disabled or zero requests configured.[/yellow]'']
      else [])"

subsection \<open>Queue items and progress updates\<close>

datatype QueueStatus = QUEUED | PROCESSING | COMPLETED | FAILED

text \<open>
  \<^verbatim>\<open>ProcessingStage\<close>; its member \<^verbatim>\<open>FAILED\<close> is written \<open>STAGE_FAILED\<close>, since
  \<open>FAILED\<close> is already the queue status.
\<close>

datatype ProcessingStage =
  VALIDATING | DOWNLOADING | TRANSCRIBING | SUMMARIZING | STORING | COMPLETE | STAGE_FAILED

text \<open>A \<^verbatim>\<open>datetime\<close> is a point on an integer time line.\<close>

type_synonym datetime = int

text \<open>
  \<^verbatim>\<open>QueueItem\<close> of \<^verbatim>\<open>sage/models/queue.py\<close>. The field \<open>video_url\<close> holds the
  text of the validated URL, that is \<^verbatim>\<open>str(item.video_url)\<close>.
\<close>

record QueueItem =
  video_url :: string
  status :: QueueStatus
  priority :: int
  manual_tags :: "string list"
  summarize :: bool
  summary_length :: int
  remove_timestamps :: bool
  force :: bool
  current_stage :: "ProcessingStage option"
  stage_progress_percent :: int
  overall_progress_percent :: int
  retry_count :: int
  max_retries :: int
  error_message :: "string option"
  error_type :: "string option"
  message :: "string option"
  queued_at :: datetime
  started_at :: "datetime option"
  completed_at :: "datetime option"

text \<open>
  \<^verbatim>\<open>ProgressUpdate\<close> of \<^verbatim>\<open>sage/utils/progress.py\<close>. Its fields \<^verbatim>\<open>message\<close> and
  \<^verbatim>\<open>video_url\<close> are \<open>update_message\<close> and \<open>update_video_url\<close> here.
\<close>

record ProgressUpdate =
  stage :: ProcessingStage
  stage_progress :: int
  overall_progress :: int
  update_message :: string
  update_video_url :: string
  estimated_time_remaining :: "int option"

datatype error = ValidationError

text \<open>
  The call \<^verbatim>\<open>QueueItem(video_url=.., priority=.., queued_at=.., ..)\<close> of
  \<^verbatim>\<open>add_to_queue\<close>. The model validates what the class declares: the URL, and
  \<^verbatim>\<open>summary_length\<close> with \<^verbatim>\<open>ge=1\<close>; every other constrained field takes its
  default. The URL type \<^verbatim>\<open>HttpUrl\<close> belongs to pydantic, not to the repository, and
  is the parameter \<open>http_url\<close>: \<open>None\<close> for a string pydantic rejects, and otherwise
  the text that \<^verbatim>\<open>str\<close> gives for the validated URL.
\<close>

definition QueueItem_new ::
  "(string \<Rightarrow> string option) \<Rightarrow> string \<Rightarrow> int \<Rightarrow> datetime \<Rightarrow> string list \<Rightarrow> bool \<Rightarrow> int \<Rightarrow>
   bool \<Rightarrow> bool \<Rightarrow> error + QueueItem" where
  "QueueItem_new http_url url prio queued tags summ slen rmts frc =
     (case http_url url of
        None \<Rightarrow> Inl ValidationError
      | Some u \<Rightarrow>
          if slen < 1 then Inl ValidationError
          else Inr \<lparr> video_url = u, status = QUEUED, priority = prio, manual_tags = tags,
                     summarize = summ, summary_length = slen, remove_timestamps = rmts,
                     force = frc, current_stage = None, stage_progress_percent = 0,
                     overall_progress_percent = 0, retry_count = 0, max_retries = 3,
                     error_message = None, error_type = None, message = None,
                     queued_at = queued, started_at = None, completed_at = None \<rparr>)"

subsection \<open>QueueService: state and enqueueing\<close>

text \<open>
  An entry of the priority queue is the tuple \<^verbatim>\<open>(-priority, sequence, item)\<close>. Python
  orders such tuples by their first two components; it would go on to compare the items
  only for two entries with the same priority and sequence number, which do not arise
  (\<open>enqueue_all_queue\<close> below). \<^verbatim>\<open>asyncio.PriorityQueue\<close> is a list of entries here:
  \<^verbatim>\<open>put\<close> adds an entry and \<^verbatim>\<open>get\<close> takes out the least one.
\<close>

type_synonym queue_entry = "int \<times> nat \<times> QueueItem"




text \<open>
  The state of a \<^verbatim>\<open>QueueService\<close>: \<^verbatim>\<open>_priority_queue\<close>, \<^verbatim>\<open>_items\<close>,
  \<^verbatim>\<open>_sequence\<close>, \<^verbatim>\<open>_rate_limiters\<close>, and the lines written with
  \<^verbatim>\<open>_console.log\<close>.
\<close>

record QueueService =
  priority_queue :: "queue_entry list"
  items :: "string \<rightharpoonup> QueueItem"
  sequence :: nat
  rate_limiters :: "string \<rightharpoonup> RateLimiter"
  console :: "string list"

text \<open>
  \<^verbatim>\<open>QueueService.load_rate_limits\<close> over the services of the configuration in their
  order; \<open>now\<close> gives the clock reading at which each limiter is built.
\<close>

definition load_rate_limits ::
  "(string \<times> ServiceRateLimit) list \<Rightarrow> (string \<Rightarrow> real) \<Rightarrow> (string \<rightharpoonup> RateLimiter)" where
  "load_rate_limits services now =
     fold (\<lambda>(service_name, config) limiters.
             limiters(service_name \<mapsto> create_limiter service_name config (now service_name)))
       services Map.empty"

text \<open>\<^verbatim>\<open>QueueService.__init__\<close>.\<close>

definition QueueService_init ::
  "(string \<times> ServiceRateLimit) list \<Rightarrow> (string \<Rightarrow> real) \<Rightarrow> QueueService" where
  "QueueService_init services now =
     \<lparr> priority_queue = [], items = Map.empty, sequence = 0,
       rate_limiters = load_rate_limits services now,
       console = concat (map (\<lambda>(service_name, config). create_limiter_log service_name config)
                           services) \<rparr>"

text \<open>The arguments of one call of \<^verbatim>\<open>add_to_queue\<close>.\<close>

record enqueue_args =
  arg_url :: string
  arg_priority :: int
  arg_manual_tags :: "string list option"
  arg_summarize :: bool
  arg_summary_length :: int
  arg_remove_timestamps :: bool
  arg_force :: bool

text \<open>
  \<^verbatim>\<open>QueueService.add_to_queue\<close>; \<open>now\<close> is \<^verbatim>\<open>datetime.now(timezone.utc)\<close>. The map
  key is the string the caller passed (\<^verbatim>\<open>cast\<close> does nothing at run time).
\<close>

definition add_to_queue ::
  "(string \<Rightarrow> string option) \<Rightarrow> datetime \<Rightarrow> enqueue_args \<Rightarrow> QueueService \<Rightarrow>
   error + (QueueItem \<times> QueueService)" where
  "add_to_queue http_url now a s =
     (case QueueItem_new http_url (arg_url a) (arg_priority a) now
             (case arg_manual_tags a of None \<Rightarrow> [] | Some ts \<Rightarrow> ts)
             (arg_summarize a) (arg_summary_length a) (arg_remove_timestamps a) (arg_force a) of
        Inl e \<Rightarrow> Inl e
      | Inr item \<Rightarrow>
          (let sq = sequence s + 1 in
           Inr (item,
                s\<lparr> sequence := sq,
                   priority_queue := priority_queue s @ [(- arg_priority a, sq, item)],
                   items := (items s)(arg_url a \<mapsto> item) \<rparr>)))"


subsection \<open>QueueService: processing one item\<close>

text \<open>
  The injected ingestion handler is outside the repository's scheduler. What the
  scheduler sees of one invocation is the progress updates it reports, in order, and
  whether it returns or raises. A \<open>script\<close> holds that, together with the clock
  readings of the item's processing: \<open>started\<close> and \<open>finished\<close> are the two
  \<^verbatim>\<open>datetime.now\<close> readings, \<open>clock\<close> the event-loop readings the rate limiters see.
  An \<open>exc\<close> stands for an instance of \<^verbatim>\<open>Exception\<close>, with
  \<^verbatim>\<open>exc.__class__.__name__\<close> and \<^verbatim>\<open>str(exc)\<close>; a \<^verbatim>\<open>BaseException\<close> that is no
  \<^verbatim>\<open>Exception\<close> (cancellation, interpreter exit) is outside the model.
\<close>

record exc =
  exc_class :: string
  exc_str :: string

datatype handler_result = Returned | Raised exc

record script =
  started :: datetime
  clock :: "real list"
  updates :: "ProgressUpdate list"
  outcome :: handler_result
  finished :: datetime

text \<open>The callback returned by \<^verbatim>\<open>_progress_callback_for(video_url)\<close>.\<close>

definition progress_handler :: "string \<Rightarrow> ProgressUpdate \<Rightarrow> QueueService \<Rightarrow> QueueService" where
  "progress_handler url u s =
     (case items s url of
        None \<Rightarrow> s
      | Some current \<Rightarrow>
          s\<lparr> items := (items s)(url \<mapsto>
               current\<lparr> current_stage := Some (stage u),
                        stage_progress_percent := stage_progress u,
                        overall_progress_percent :=
                          max (overall_progress_percent current) (overall_progress u),
                        message := Some (update_message u) \<rparr>) \<rparr>)"

text \<open>
  \<^verbatim>\<open>QueueService.apply_rate_limit\<close>: \<open>None\<close> when \<^verbatim>\<open>acquire\<close> has not returned
  within the clock readings.
\<close>

definition apply_rate_limit ::
  "string \<Rightarrow> real list \<Rightarrow> QueueService \<Rightarrow> (QueueService \<times> real list) option" where
  "apply_rate_limit service_name clk s =
     (case rate_limiters s service_name of
        None \<Rightarrow> Some (s, clk)
      | Some limiter \<Rightarrow>
          (case snd (acquire clk limiter) of
             None \<Rightarrow> None
           | Some (limiter', clk') \<Rightarrow>
               Some (s\<lparr> rate_limiters := (rate_limiters s)(service_name \<mapsto> limiter') \<rparr>, clk')))"

text \<open>The loop \<^verbatim>\<open>for service in services_to_throttle\<close> of \<^verbatim>\<open>_process_item\<close>.\<close>

fun throttle ::
  "string list \<Rightarrow> real list \<Rightarrow> QueueService \<Rightarrow> (QueueService \<times> real list) option" where
  "throttle [] clk s = Some (s, clk)"
| "throttle (service # services) clk s =
     (case apply_rate_limit service clk s of
        None \<Rightarrow> None
      | Some (s', clk') \<Rightarrow> throttle services clk' s')"

text \<open>The three \<^verbatim>\<open>model_copy(update=..)\<close> calls of \<^verbatim>\<open>_process_item\<close>.\<close>

definition in_progress_of :: "datetime \<Rightarrow> QueueItem \<Rightarrow> QueueItem" where
  "in_progress_of now item =
     item\<lparr> status := PROCESSING, started_at := Some now,
           current_stage := Some VALIDATING, stage_progress_percent := 0 \<rparr>"

definition completed_of :: "datetime \<Rightarrow> QueueItem \<Rightarrow> QueueItem" where
  "completed_of now in_progress =
     in_progress\<lparr> status := COMPLETED, completed_at := Some now,
                  current_stage := Some COMPLETE, overall_progress_percent := 100,
                  stage_progress_percent := 100 \<rparr>"

definition failed_of :: "datetime \<Rightarrow> exc \<Rightarrow> QueueItem \<Rightarrow> QueueItem" where
  "failed_of now e in_progress =
     in_progress\<lparr> status := FAILED, completed_at := Some now,
                  current_stage := Some STAGE_FAILED, error_message := Some (exc_str e),
                  error_type := Some (exc_class e) \<rparr>"

definition services_to_throttle :: "QueueItem \<Rightarrow> string list" where
  "services_to_throttle in_progress =
     [''youtube_api''] @ (if summarize in_progress then [''openai_api''] else [])"

text \<open>
  \<^verbatim>\<open>QueueService._process_item\<close>, with the script of this invocation. The result is
  \<open>None\<close> when a rate limiter has not admitted the item within the clock readings: the
  handler is then not invoked and the item stays as the processing transition left it.
\<close>

definition process_item :: "script \<Rightarrow> QueueItem \<Rightarrow> QueueService \<Rightarrow> QueueService option" where
  "process_item sc item s =
     (let in_progress = in_progress_of (started sc) item;
          url = video_url item;
          s1 = s\<lparr> items := (items s)(url \<mapsto> in_progress) \<rparr>
      in case throttle (services_to_throttle in_progress) (clock sc) s1 of
           None \<Rightarrow> None
         | Some (s2, _) \<Rightarrow>
             (let s3 = fold (progress_handler url) (updates sc) s2 in
              case outcome sc of
                Returned \<Rightarrow>
                  Some (s3\<lparr> items := (items s3)(url \<mapsto> completed_of (finished sc) in_progress) \<rparr>)
              | Raised e \<Rightarrow>
                  Some (s3\<lparr> items := (items s3)(url \<mapsto> failed_of (finished sc) e in_progress),
                            console := console s3 @ [''[red]Batch item failed:[/red] '' @ exc_str e] \<rparr>)))"

text \<open>
  Whether the rate limiters admit the item within the clock readings of its script, so
  that \<^verbatim>\<open>_process_item\<close> reaches the call of the ingestion handler.
\<close>

definition handler_invoked :: "script \<Rightarrow> QueueItem \<Rightarrow> QueueService \<Rightarrow> bool" where
  "handler_invoked sc item s \<longleftrightarrow>
     throttle (services_to_throttle (in_progress_of (started sc) item)) (clock sc)
       (s\<lparr> items := (items s)(video_url item \<mapsto> in_progress_of (started sc) item) \<rparr>) \<noteq> None"

subsection \<open>QueueService: the drain loop\<close>




text \<open>
  The item and the console lines that \<^verbatim>\<open>_process_item\<close> stores at the terminal
  transition, read off its two branches.
\<close>

definition final_item :: "script \<Rightarrow> QueueItem \<Rightarrow> QueueItem" where
  "final_item sc item =
     (case outcome sc of
        Returned \<Rightarrow> completed_of (finished sc) (in_progress_of (started sc) item)
      | Raised e \<Rightarrow> failed_of (finished sc) e (in_progress_of (started sc) item))"

definition final_log :: "script \<Rightarrow> string list" where
  "final_log sc =
     (case outcome sc of
        Returned \<Rightarrow> []
      | Raised e \<Rightarrow> [''[red]Batch item failed:[/red] '' @ exc_str e])"


subsection \<open>Concrete inputs\<close>

text \<open>Small inputs on which the theorems below are exercised.\<close>

definition example_item :: "string \<Rightarrow> int \<Rightarrow> QueueItem" where
  "example_item url prio =
     \<lparr> video_url = url, status = QUEUED, priority = prio, manual_tags = [],
       summarize = True, summary_length = 300, remove_timestamps = False,
       force = False, current_stage = None, stage_progress_percent = 0,
       overall_progress_percent = 0, retry_count = 0, max_retries = 3,
       error_message = None, error_type = None, message = None,
       queued_at = 0, started_at = None, completed_at = None \<rparr>"

definition example_args :: "string \<Rightarrow> int \<Rightarrow> enqueue_args" where
  "example_args url prio =
     \<lparr> arg_url = url, arg_priority = prio, arg_manual_tags = None, arg_summarize = True,
       arg_summary_length = 300, arg_remove_timestamps = False, arg_force = False \<rparr>"

definition example_update :: "int \<Rightarrow> ProgressUpdate" where
  "example_update p =
     \<lparr> stage = TRANSCRIBING, stage_progress = p, overall_progress = p,
       update_message = ''working'', update_video_url = ''a'',
       estimated_time_remaining = None \<rparr>"

definition example_script :: "ProgressUpdate list \<Rightarrow> handler_result \<Rightarrow> script" where
  "example_script ups r =
     \<lparr> started = 1, clock = [0, 0], updates = ups, outcome = r, finished = 2 \<rparr>"

definition example_config :: ServiceRateLimit where
  "example_config =
     \<lparr> cfg_requests_per_day = None, cfg_requests_per_hour = None,
       cfg_requests_per_minute = Some 60, cfg_tokens_per_minute = None,
       cfg_burst = Some 1 \<rparr>"

definition example_service :: QueueService where
  "example_service = QueueService_init [(''youtube_api'', example_config)] (\<lambda>_. 0)"



definition example_exc :: exc where
  "example_exc = \<lparr> exc_class = ''RuntimeError'', exc_str = ''no transcript'' \<rparr>"



section \<open>Properties of the rate limiter\<close>

lemma refill_frame [simp]:
  "requests_per_minute (refill now l) = requests_per_minute l"
  "burst (refill now l) = burst l"
  "backoff_base_seconds (refill now l) = backoff_base_seconds l"
  "max_backoff_seconds (refill now l) = max_backoff_seconds l"
  "refill_rate (refill now l) = refill_rate l"
  by (simp_all add: refill_def Let_def)

lemma refill_wf [simp]: "limiter_wf (refill now l) = limiter_wf l"
  by (simp add: limiter_wf_def)




lemma refills_frame [simp]:
  "requests_per_minute (refills l ts) = requests_per_minute l"
  "burst (refills l ts) = burst l"
  "backoff_base_seconds (refills l ts) = backoff_base_seconds l"
  "max_backoff_seconds (refills l ts) = max_backoff_seconds l"
  "refill_rate (refills l ts) = refill_rate l"
  by (induction ts arbitrary: l; simp add: refills_def)+









lemma acquire_calls_disabled:
  "requests_per_minute l \<le> 0 \<Longrightarrow> acquire_calls clks l = (replicate (length clks) [], Some l)"
  by (induction clks) (simp_all add: acquire_def)








section \<open>Properties of the queue service\<close>

lemma apply_rate_limit_frame:
  assumes "apply_rate_limit n clk s = Some (s', clk')"
  shows "s' = s\<lparr> rate_limiters := rate_limiters s' \<rparr>"
  using assms by (auto simp: apply_rate_limit_def split: option.splits)

lemma throttle_frame:
  assumes "throttle ns clk s = Some (s', clk')"
  shows "s' = s\<lparr> rate_limiters := rate_limiters s' \<rparr>"
  using assms
proof (induction ns arbitrary: clk s)
  case Nil
  then show ?case by simp
next
  case (Cons n ns)
  from Cons.prems obtain s1 clk1 where a: "apply_rate_limit n clk s = Some (s1, clk1)"
    and t: "throttle ns clk1 s1 = Some (s', clk')"
    by (auto split: option.splits)
  from Cons.IH [OF t] have "s' = s1\<lparr> rate_limiters := rate_limiters s' \<rparr>" .
  moreover from apply_rate_limit_frame [OF a] have "s1 = s\<lparr> rate_limiters := rate_limiters s1 \<rparr>" .
  ultimately show ?case by (metis QueueService.update_convs(4) QueueService.surjective QueueService.simps)
qed

lemma progress_handler_frame:
  "\<exists>m. progress_handler url u s = s\<lparr> items := m \<rparr> \<and> (\<forall>v. v \<noteq> url \<longrightarrow> m v = items s v)"
proof (cases "items s url")
  case None
  then have "progress_handler url u s = s\<lparr> items := items s \<rparr>"
    by (simp add: progress_handler_def)
  then show ?thesis by blast
next
  case (Some current)
  then show ?thesis by (auto simp: progress_handler_def)
qed

lemma fold_progress_handler_frame:
  "\<exists>m. fold (progress_handler url) ups s = s\<lparr> items := m \<rparr> \<and> (\<forall>v. v \<noteq> url \<longrightarrow> m v = items s v)"
proof (induction ups arbitrary: s)
  case Nil
  have "fold (progress_handler url) [] s = s\<lparr> items := items s \<rparr>" by simp
  then show ?case by blast
next
  case (Cons u ups)
  obtain m1 where m1: "progress_handler url u s = s\<lparr> items := m1 \<rparr>"
    and o1: "\<forall>v. v \<noteq> url \<longrightarrow> m1 v = items s v"
    using progress_handler_frame by blast
  obtain m2 where m2: "fold (progress_handler url) ups (s\<lparr> items := m1 \<rparr>) = s\<lparr> items := m1 \<rparr>\<lparr> items := m2 \<rparr>"
    and o2: "\<forall>v. v \<noteq> url \<longrightarrow> m2 v = items (s\<lparr> items := m1 \<rparr>) v"
    using Cons.IH by blast
  have "fold (progress_handler url) (u # ups) s = s\<lparr> items := m2 \<rparr>"
    using m1 m2 by simp
  moreover have "\<forall>v. v \<noteq> url \<longrightarrow> m2 v = items s v" using o1 o2 by simp
  ultimately show ?case by blast
qed

lemma process_item_eq:
  "process_item sc item s =
     (case throttle (services_to_throttle (in_progress_of (started sc) item)) (clock sc)
             (s\<lparr> items := (items s)(video_url item \<mapsto> in_progress_of (started sc) item) \<rparr>) of
        None \<Rightarrow> None
      | Some (s2, c) \<Rightarrow>
          Some (s\<lparr> items := (items s)(video_url item \<mapsto> final_item sc item),
                   rate_limiters := rate_limiters s2,
                   console := console s @ final_log sc \<rparr>))"
proof -
  let ?ip = "in_progress_of (started sc) item"
  let ?url = "video_url item"
  let ?s1 = "s\<lparr> items := (items s)(?url \<mapsto> ?ip) \<rparr>"
  show ?thesis
  proof (cases "throttle (services_to_throttle ?ip) (clock sc) ?s1")
    case None
    then show ?thesis by (simp add: process_item_def Let_def)
  next
    case (Some p)
    obtain s2 c where p: "p = (s2, c)" by (cases p)
    from throttle_frame [of _ _ ?s1 s2 c] Some p
    have s2: "s2 = ?s1\<lparr> rate_limiters := rate_limiters s2 \<rparr>" by simp
    obtain m where m: "fold (progress_handler ?url) (updates sc) s2 = s2\<lparr> items := m \<rparr>"
      and o: "\<forall>v. v \<noteq> ?url \<longrightarrow> m v = items s2 v"
      using fold_progress_handler_frame by blast
    have its: "items s2 = (items s)(?url \<mapsto> ?ip)" by (subst s2) simp
    have upd: "m(?url \<mapsto> x) = (items s)(?url \<mapsto> x)" for x
      using o its by (auto simp: fun_eq_iff)
    have flds: "priority_queue s2 = priority_queue s" "sequence s2 = sequence s"
      "console s2 = console s"
      by (subst s2, simp)+
    show ?thesis
    proof (cases "outcome sc")
      case Returned
      with Some p m upd flds show ?thesis
        by (simp add: process_item_def Let_def final_item_def final_log_def)
    next
      case (Raised e)
      with Some p m upd flds show ?thesis
        by (simp add: process_item_def Let_def final_item_def final_log_def)
    qed
  qed
qed

lemma example_invoked:
  "handler_invoked (example_script ups r) (example_item ''a'' 0) example_service"
  by (simp add: handler_invoked_def example_script_def example_item_def example_service_def
      QueueService_init_def load_rate_limits_def example_config_def create_limiter_def
      or_default_def RateLimiter_new_def RateLimiter_init_def in_progress_of_def
      services_to_throttle_def apply_rate_limit_def acquire_def refill_def Let_def)


lemma add_to_queue_Inr:
  assumes "add_to_queue h now a s = Inr (item, s')"
  shows "s' = s\<lparr> sequence := Suc (sequence s),
                priority_queue := priority_queue s @ [(- arg_priority a, Suc (sequence s), item)],
                items := (items s)(arg_url a \<mapsto> item) \<rparr>
         \<and> priority item = arg_priority a \<and> h (arg_url a) = Some (video_url item)
         \<and> status item = QUEUED \<and> overall_progress_percent item = 0
         \<and> stage_progress_percent item = 0 \<and> message item = None"
  using assms
  by (auto simp: add_to_queue_def QueueItem_new_def Let_def split: sum.splits option.splits if_splits)



















lemma services_to_throttle_in_progress [simp]:
  "services_to_throttle (in_progress_of now item) = services_to_throttle item"
  by (simp add: services_to_throttle_def in_progress_of_def)





section \<open>The claims\<close>









text \<open>
  C4. When the ingestion handler of an item returns, \<^verbatim>\<open>_process_item\<close> stores the
  item under its identifier with status \<open>COMPLETED\<close>, \<open>completed_at\<close> set to the time
  of the transition, the stage \<open>COMPLETE\<close>, and both progress percentages equal to 100.
  The handler is invoked once the rate limiters have admitted the item.
\<close>

theorem handler_success_completed:
  assumes "handler_invoked sc item s" and "outcome sc = Returned"
  shows "\<exists>s' it. process_item sc item s = Some s' \<and> items s' (video_url item) = Some it \<and>
           status it = COMPLETED \<and> completed_at it = Some (finished sc) \<and>
           current_stage it = Some COMPLETE \<and> stage_progress_percent it = 100 \<and>
           overall_progress_percent it = 100"
proof -
  from assms(1) obtain s2 c where
    "throttle (services_to_throttle (in_progress_of (started sc) item)) (clock sc)
       (s\<lparr> items := (items s)(video_url item \<mapsto> in_progress_of (started sc) item) \<rparr>) = Some (s2, c)"
    by (auto simp: handler_invoked_def)
  then have "process_item sc item s =
     Some (s\<lparr> items := (items s)(video_url item \<mapsto> final_item sc item),
              rate_limiters := rate_limiters s2, console := console s @ final_log sc \<rparr>)"
    by (simp add: process_item_eq)
  moreover have "final_item sc item = completed_of (finished sc) (in_progress_of (started sc) item)"
    using assms(2) by (simp add: final_item_def)
  ultimately show ?thesis by (simp add: completed_of_def)
qed

theorem handler_success_completed_witness:
  "handler_invoked (example_script [example_update 40] Returned) (example_item ''a'' 0) example_service \<and>
   outcome (example_script [example_update 40] Returned) = Returned \<and>
   (\<exists>s' it. process_item (example_script [example_update 40] Returned) (example_item ''a'' 0)
               example_service = Some s' \<and>
            items s' ''a'' = Some it \<and> status it = COMPLETED \<and> completed_at it = Some 2 \<and>
            current_stage it = Some COMPLETE \<and> stage_progress_percent it = 100 \<and>
            overall_progress_percent it = 100)"
proof -
  have inv: "handler_invoked (example_script [example_update 40] Returned) (example_item ''a'' 0)
               example_service"
    by (rule example_invoked)
  have ret: "outcome (example_script [example_update 40] Returned) = Returned"
    by (simp add: example_script_def)
  from handler_success_completed [OF inv ret] inv ret show ?thesis
    by (simp add: example_script_def example_item_def)
qed










text \<open>
  C7. A limiter whose \<open>requests_per_minute\<close> is at most 0 returns from every
  \<^verbatim>\<open>acquire\<close> at once: no sleep, no clock reading used, the limiter (and so its token
  level) unchanged, for one call and for any number of calls in a row.
\<close>

theorem acquire_disabled:
  assumes "requests_per_minute l \<le> 0"
  shows "acquire clk l = ([], Some (l, clk)) \<and>
         acquire_calls clks l = (replicate (length clks) [], Some l)"
  using assms by (simp add: acquire_def acquire_calls_disabled)

theorem acquire_disabled_witness:
  "acquire [3, 4] (RateLimiter_new 0 5 0) = ([], Some (RateLimiter_new 0 5 0, [3, 4])) \<and>
   acquire_calls [[1], [2, 3]] (RateLimiter_new 0 5 0) = ([[], []], Some (RateLimiter_new 0 5 0))"
proof -
  have "requests_per_minute (RateLimiter_new 0 5 0) \<le> 0"
    by (simp add: RateLimiter_new_def RateLimiter_init_def)
  from acquire_disabled [OF this, of "[3, 4]" "[[1], [2, 3]]"] show ?thesis
    by (simp add: numeral_2_eq_2)
qed





text \<open>
  C9. Two enqueues with the same target identifier: after the first the map holds the
  first item under the identifier, after the second it holds the second item there and
  is otherwise as before; the queue has gained both entries, the first one still in
  it, with consecutive sequence numbers, and both items carry the same URL.
\<close>

theorem duplicate_enqueue_overwrites:
  assumes "add_to_queue h t1 a1 s = Inr (i1, s1)"
    and "add_to_queue h t2 a2 s1 = Inr (i2, s2)"
    and "arg_url a2 = arg_url a1"
  shows "items s1 (arg_url a1) = Some i1 \<and> items s2 (arg_url a1) = Some i2 \<and>
         priority_queue s2 =
           priority_queue s @ [(- arg_priority a1, sequence s + 1, i1),
                               (- arg_priority a2, sequence s + 2, i2)] \<and>
         video_url i2 = video_url i1 \<and>
         items s2 = (items s)(arg_url a1 \<mapsto> i2)"
proof -
  from add_to_queue_Inr [OF assms(1)]
  have s1: "s1 = s\<lparr> sequence := Suc (sequence s),
                priority_queue := priority_queue s @ [(- arg_priority a1, Suc (sequence s), i1)],
                items := (items s)(arg_url a1 \<mapsto> i1) \<rparr>"
    and u1: "h (arg_url a1) = Some (video_url i1)" by simp_all
  from add_to_queue_Inr [OF assms(2)]
  have s2: "s2 = s1\<lparr> sequence := Suc (sequence s1),
                priority_queue := priority_queue s1 @ [(- arg_priority a2, Suc (sequence s1), i2)],
                items := (items s1)(arg_url a2 \<mapsto> i2) \<rparr>"
    and u2: "h (arg_url a2) = Some (video_url i2)" by simp_all
  have q1: "priority_queue s1 = priority_queue s @ [(- arg_priority a1, Suc (sequence s), i1)]"
    and m1: "items s1 = (items s)(arg_url a1 \<mapsto> i1)" and n1: "sequence s1 = Suc (sequence s)"
    by (subst s1, simp)+
  have q2: "priority_queue s2 = priority_queue s1 @ [(- arg_priority a2, Suc (sequence s1), i2)]"
    and m2: "items s2 = (items s1)(arg_url a2 \<mapsto> i2)"
    by (subst s2, simp)+
  from u1 u2 assms(3) have "video_url i2 = video_url i1" by simp
  with q1 q2 m1 m2 n1 assms(3) show ?thesis by simp
qed

theorem duplicate_enqueue_overwrites_witness:
  "\<exists>i1 s1 i2 s2.
     add_to_queue Some 10 (example_args ''a'' 0) example_service = Inr (i1, s1) \<and>
     add_to_queue Some 20 (example_args ''a'' 3) s1 = Inr (i2, s2) \<and>
     items s2 ''a'' = Some i2 \<and> priority i2 = 3 \<and> queued_at i2 = 20 \<and>
     priority_queue s2 = [(0, 1, i1), (- 3, 2, i2)] \<and>
     video_url i1 = ''a'' \<and> video_url i2 = ''a''"
proof -
  obtain i1 s1 where e1: "add_to_queue Some 10 (example_args ''a'' 0) example_service = Inr (i1, s1)"
    and v1: "video_url i1 = ''a''"
    by (simp add: add_to_queue_def QueueItem_new_def example_args_def Let_def)
  obtain i2 s2 where e2: "add_to_queue Some 20 (example_args ''a'' 3) s1 = Inr (i2, s2)"
    and p2: "priority i2 = 3" "queued_at i2 = 20"
    by (simp add: add_to_queue_def QueueItem_new_def example_args_def Let_def)
  have u: "arg_url (example_args ''a'' 3) = arg_url (example_args ''a'' 0)"
    by (simp add: example_args_def)
  have q0: "priority_queue example_service = []" "sequence example_service = 0"
    by (simp_all add: example_service_def QueueService_init_def)
  from duplicate_enqueue_overwrites [OF e1 e2 u] e1 e2 v1 p2 q0 show ?thesis
    by (simp add: example_args_def)
qed


text \<open>
  C10. The item stored at the terminal transition is built from the snapshot taken at
  the processing transition: it is \<open>completed_of\<close> or \<open>failed_of\<close> of that snapshot.
  Its \<open>message\<close> is the one the item had before processing; on failure its
  \<open>overall_progress_percent\<close> is the item's value from before processing and its
  \<open>stage_progress_percent\<close> is the snapshot's value, 0; for an item that
  \<^verbatim>\<open>add_to_queue\<close> built these are \<open>None\<close>, 0 and the item's own 0. The progress
  updates leave no trace: with any other list of updates the resulting state is the
  same.
\<close>

theorem terminal_transition_from_snapshot:
  assumes "handler_invoked sc item s"
  shows "\<exists>s' it. process_item sc item s = Some s' \<and> items s' (video_url item) = Some it \<and>
           it = (case outcome sc of
                   Returned \<Rightarrow> completed_of (finished sc) (in_progress_of (started sc) item)
                 | Raised e \<Rightarrow> failed_of (finished sc) e (in_progress_of (started sc) item)) \<and>
           message it = message item \<and>
           (outcome sc \<noteq> Returned \<longrightarrow>
              overall_progress_percent it = overall_progress_percent item \<and>
              stage_progress_percent it = stage_progress_percent (in_progress_of (started sc) item) \<and>
              stage_progress_percent it = 0) \<and>
           (\<forall>h now a s0 sq. add_to_queue h now a s0 = Inr (item, sq) \<longrightarrow>
              message it = None \<and>
              (outcome sc \<noteq> Returned \<longrightarrow>
                 overall_progress_percent it = 0 \<and>
                 stage_progress_percent it = stage_progress_percent item)) \<and>
           process_item (sc\<lparr> updates := ups \<rparr>) item s = Some s'"
proof -
  from assms obtain s2 c where
    thr: "throttle (services_to_throttle (in_progress_of (started sc) item)) (clock sc)
       (s\<lparr> items := (items s)(video_url item \<mapsto> in_progress_of (started sc) item) \<rparr>) = Some (s2, c)"
    by (auto simp: handler_invoked_def)
  let ?s' = "s\<lparr> items := (items s)(video_url item \<mapsto> final_item sc item),
              rate_limiters := rate_limiters s2, console := console s @ final_log sc \<rparr>"
  from thr have p: "process_item sc item s = Some ?s'"
    by (simp add: process_item_eq)
  have f: "final_item (sc\<lparr> updates := ups \<rparr>) item = final_item sc item"
    "final_log (sc\<lparr> updates := ups \<rparr>) = final_log sc"
    by (simp_all add: final_item_def final_log_def split: handler_result.splits)
  from thr have p': "process_item (sc\<lparr> updates := ups \<rparr>) item s = Some ?s'"
    by (simp add: process_item_eq f)
  have st: "items ?s' (video_url item) = Some (final_item sc item)" by simp
  have m: "message (final_item sc item) = message item"
    by (simp add: final_item_def completed_of_def failed_of_def in_progress_of_def
        split: handler_result.splits)
  have fl: "outcome sc \<noteq> Returned \<longrightarrow>
      overall_progress_percent (final_item sc item) = overall_progress_percent item \<and>
      stage_progress_percent (final_item sc item) = stage_progress_percent (in_progress_of (started sc) item) \<and>
      stage_progress_percent (final_item sc item) = 0"
    by (simp add: final_item_def completed_of_def failed_of_def in_progress_of_def
        split: handler_result.splits)
  have enq: "\<forall>h now a s0 sq. add_to_queue h now a s0 = Inr (item, sq) \<longrightarrow>
              message (final_item sc item) = None \<and>
              (outcome sc \<noteq> Returned \<longrightarrow>
                 overall_progress_percent (final_item sc item) = 0 \<and>
                 stage_progress_percent (final_item sc item) = stage_progress_percent item)"
  proof (intro allI impI)
    fix h now a s0 sq assume "add_to_queue h now a s0 = Inr (item, sq)"
    from add_to_queue_Inr [OF this] have "overall_progress_percent item = 0"
      "stage_progress_percent item = 0" "message item = None" by simp_all
    with m fl show "message (final_item sc item) = None \<and>
              (outcome sc \<noteq> Returned \<longrightarrow>
                 overall_progress_percent (final_item sc item) = 0 \<and>
                 stage_progress_percent (final_item sc item) = stage_progress_percent item)"
      by (auto simp: in_progress_of_def)
  qed
  from p p' st m fl enq show ?thesis unfolding final_item_def by blast
qed

theorem terminal_transition_from_snapshot_witness:
  "handler_invoked (example_script [example_update 40] (Raised example_exc)) (example_item ''a'' 0)
     example_service \<and>
   (\<exists>s' it. process_item (example_script [example_update 40] (Raised example_exc))
               (example_item ''a'' 0) example_service = Some s' \<and>
            items s' ''a'' = Some it \<and> status it = FAILED \<and> message it = None \<and>
            overall_progress_percent it = 0 \<and> stage_progress_percent it = 0 \<and>
            process_item (example_script [] (Raised example_exc)) (example_item ''a'' 0)
              example_service = Some s')"
proof -
  let ?sc = "example_script [example_update 40] (Raised example_exc)"
  have inv: "handler_invoked ?sc (example_item ''a'' 0) example_service"
    by (rule example_invoked)
  have u: "?sc\<lparr> updates := [] \<rparr> = example_script [] (Raised example_exc)"
    by (simp add: example_script_def)
  have o: "outcome ?sc = Raised example_exc" by (simp add: example_script_def)
  have v: "video_url (example_item ''a'' 0) = ''a''" "message (example_item ''a'' 0) = None"
    "overall_progress_percent (example_item ''a'' 0) = 0"
    by (simp_all add: example_item_def)
  from terminal_transition_from_snapshot [OF inv, of "[]"] inv show ?thesis
    unfolding u o v by (auto simp: failed_of_def)
qed


end
